theory Spec2Isabelle
  imports Main
begin

section \<open>Python primitives used by the package\<close>

text \<open>
  Frames are Python \<open>str\<close> values. They are modelled as \<^typ>\<open>string\<close>; \<open>ord\<close> is
  \<^term>\<open>of_char\<close>, so the model covers the frames all of whose characters have a code
  point below 256. Python's unbounded \<open>int\<close> is \<^typ>\<open>int\<close>.
\<close>

datatype exc =
    ValueError
  | IndexError
  | TypeError string
  | KeyError int
  | NotImplementedError string
  | InvalidMessageException string
  | InvalidMessageLengthException string int int
  | MessageChecksumException string string string

text \<open>\<open>sep.join(xs)\<close>.\<close>

fun join :: "string \<Rightarrow> string list \<Rightarrow> string" where
  "join sep [] = []"
| "join sep [x] = x"
| "join sep (x # y # ys) = x @ sep @ join sep (y # ys)"

definition digit_char :: "nat \<Rightarrow> char" where
  "digit_char d = ''0123456789ABCDEF'' ! d"

text \<open>The digits of a natural number in base 10 (\<open>str(n)\<close>, \<open>%d\<close>) and in upper-case
  base 16 (\<open>%X\<close>).\<close>

fun str_nat :: "nat \<Rightarrow> string" where
  "str_nat n = (if n < 10 then [digit_char n] else str_nat (n div 10) @ [digit_char (n mod 10)])"

fun hex_upper :: "nat \<Rightarrow> string" where
  "hex_upper n = (if n < 16 then [digit_char n] else hex_upper (n div 16) @ [digit_char (n mod 16)])"

declare str_nat.simps [simp del] hex_upper.simps [simp del]

definition str_int :: "int \<Rightarrow> string" where
  "str_int i = (if i < 0 then ''-'' @ str_nat (nat (- i)) else str_nat (nat i))"

section \<open>messages.py: ZoneState\<close>

text \<open>
  \<open>ZoneState.__init__\<close> stores the number and five booleans computed from it once. The
  booleans are ordinary attributes: the monitor assigns to them later, and
  \<open>_state_numeric\<close> is not recomputed.
\<close>

record ZoneState =
  state_numeric :: int
  closed :: bool
  opened :: bool
  trouble :: bool
  alarm :: bool
  bypassed :: bool

definition ZoneState_init :: "int \<Rightarrow> ZoneState" where
  "ZoneState_init state =
     \<lparr> state_numeric = state,
       closed = (and state 1 = 0),
       opened = (and state 1 = 1),
       trouble = (and state 2 = 2),
       alarm = (and state 4 = 4),
       bypassed = (and state 8 = 8) \<rparr>"

definition ZoneState_str :: "ZoneState \<Rightarrow> string" where
  "ZoneState_str self =
     (let values =
        [ if closed self then Some ''CLOSED'' else None,
          if opened self then Some ''OPEN'' else None,
          if trouble self then Some ''TROUBLE'' else None,
          if alarm self then Some ''ALARM'' else None,
          if bypassed self then Some ''BYPASSED'' else None ]
      in join ''|'' (map the (filter (\<lambda>x. x \<noteq> None) values)))"

definition ZoneState_repr :: "ZoneState \<Rightarrow> string" where
  "ZoneState_repr self = ''<ZoneState('' @ str_int (state_numeric self) @ '')>''"

definition ZoneState_eq :: "ZoneState \<Rightarrow> ZoneState \<Rightarrow> bool" where
  "ZoneState_eq self other = (state_numeric self = state_numeric other)"

definition ZoneState_lt :: "ZoneState \<Rightarrow> ZoneState \<Rightarrow> bool" where
  "ZoneState_lt self other = (state_numeric self < state_numeric other)"

text \<open>The flags that the claim about the string form lists, read off the bits of the
  value, in the order closed/open, trouble, alarm, bypassed.\<close>

definition flag_names :: "int \<Rightarrow> string list" where
  "flag_names v =
     [if bit v 0 then ''OPEN'' else ''CLOSED'']
     @ (if bit v 1 then [''TROUBLE''] else [])
     @ (if bit v 2 then [''ALARM''] else [])
     @ (if bit v 3 then [''BYPASSED''] else [])"

section \<open>Python primitives: \<open>int(s, base)\<close> and \<open>%2X\<close>\<close>

text \<open>
  \<open>int(s, base)\<close> on a \<open>str\<close>: surrounding whitespace is dropped, then an optional sign,
  for base 16 an optional \<open>0x\<close>/\<open>0X\<close> (after which one underscore may follow), then digits
  below the base with single underscores between them. Anything else is \<open>ValueError\<close>.
  The package only calls it on slices of at most two characters.
\<close>

definition is_space :: "char \<Rightarrow> bool" where
  "is_space c = (of_char c \<in> {9, 10, 11, 12, 13, 32, 133, 160 :: nat})"

definition digit_value :: "char \<Rightarrow> nat option" where
  "digit_value c =
     (let k = of_char c :: nat
      in if 48 \<le> k \<and> k \<le> 57 then Some (k - 48)
         else if 97 \<le> k \<and> k \<le> 122 then Some (k - 87)
         else if 65 \<le> k \<and> k \<le> 90 then Some (k - 55)
         else None)"

fun scan_digits :: "nat \<Rightarrow> bool \<Rightarrow> nat \<Rightarrow> string \<Rightarrow> nat option" where
  "scan_digits base prev_us acc [] = (if prev_us then None else Some acc)"
| "scan_digits base prev_us acc (c # cs) =
     (if c = CHR ''_'' then (if prev_us then None else scan_digits base True acc cs)
      else case digit_value c of
             None \<Rightarrow> None
           | Some d \<Rightarrow> if d < base then scan_digits base False (acc * base + d) cs else None)"

definition strip :: "string \<Rightarrow> string" where
  "strip s = rev (dropWhile is_space (rev (dropWhile is_space s)))"

definition py_int :: "nat \<Rightarrow> string \<Rightarrow> exc + int" where
  "py_int base s =
     (let t = strip s;
          neg = (t \<noteq> [] \<and> hd t = CHR ''-'');
          u = (if t \<noteq> [] \<and> (hd t = CHR ''-'' \<or> hd t = CHR ''+'') then tl t else t);
          v = (if base = 16 \<and> length u \<ge> 2 \<and> u ! 0 = CHR ''0'' \<and> (u ! 1 = CHR ''x'' \<or> u ! 1 = CHR ''X'')
               then (if length u \<ge> 3 \<and> u ! 2 = CHR ''_'' then drop 3 u else drop 2 u)
               else u)
      in if v = [] \<or> hd v = CHR ''_'' then Inl ValueError
         else case scan_digits base False 0 v of
                None \<Rightarrow> Inl ValueError
              | Some n \<Rightarrow> Inr (if neg then - int n else int n))"

text \<open>\<open>'%2X' % n\<close>: upper-case hexadecimal, padded on the left with spaces (not zeros)
  to a width of two.\<close>

definition fmt_2X :: "int \<Rightarrow> string" where
  "fmt_2X n =
     (let h = (if n < 0 then ''-'' @ hex_upper (nat (- n)) else hex_upper (nat n))
      in replicate (2 - length h) CHR '' '' @ h)"

text \<open>The rendering the protocol description asks for: two upper-case hexadecimal
  digits, the first one \<open>0\<close> for a value below 16.\<close>

definition two_hex_digits :: "int \<Rightarrow> string" where
  "two_hex_digits n = [digit_char (nat n div 16 mod 16), digit_char (nat n mod 16)]"

section \<open>messages.py: framing and checksum\<close>

definition ascii_uppercase :: string where
  "ascii_uppercase = ''ABCDEFGHIJKLMNOPQRSTUVWXYZ''"

text \<open>The expression \<open>-(sum(ord(c) for c in raw_message[:-2]) % 256) & 0xFF\<close>.\<close>

definition checksum_value :: "string \<Rightarrow> int" where
  "checksum_value raw_message =
     and (- ((\<Sum>c\<leftarrow>take (length raw_message - 2) raw_message. of_char c) mod 256)) 255"

text \<open>
  \<open>MessagePacket._parse_message\<close>. The slices are \<open>raw_message[0:2]\<close>,
  \<open>raw_message[-2:]\<close>, \<open>raw_message[:-2]\<close> and \<open>raw_message[4:-4]\<close>; the two index
  reads raise \<open>IndexError\<close> on a frame that is too short.
\<close>

definition parse_message :: "string \<Rightarrow> exc + (char \<times> char \<times> string)" where
  "parse_message raw_message =
     (case py_int 16 (take 2 raw_message) of
        Inl e \<Rightarrow> Inl e
      | Inr msglen \<Rightarrow>
          if int (length raw_message) \<noteq> msglen
          then Inl (InvalidMessageLengthException raw_message msglen (int (length raw_message)))
          else
            let expected_crc = drop (length raw_message - 2) raw_message;
                crc = fmt_2X (checksum_value raw_message)
            in if crc \<noteq> expected_crc
               then Inl (MessageChecksumException raw_message expected_crc crc)
               else if length raw_message \<le> 3 then Inl IndexError
               else Inr (raw_message ! 2, raw_message ! 3,
                         drop 4 (take (length raw_message - 4) raw_message)))"

section \<open>events.py: the event classes\<close>

text \<open>
  One constructor per class statement of \<open>events.py\<close>, in the order of the file.
  \<open>UnknownEvent\<close> is not a subclass of \<open>SystemEvent\<close> and is not listed here.
\<close>

datatype event_class =
    SystemEvent | AlarmEvent | PerimeterAlarm | EntryExitAlarm
  | InteriorFollowerAlarm | FireAlarm | AudiblePanicAlarm | SilentPanicAlarm
  | Aux24hrAlarm | DuressAlarm | OtherAlarmRestore | RfLowBattery
  | RfLowBatteryRestore | OtherTrouble | OtherTroubleRestore | ArmDisarmEvent
  | ArmStay | Disarm | Arm | LowBattery
  | LowBatteryRestore | AcFail | AcRestore | AlarmCancel
  | OtherBypass | OtherUnbypass | DayNightAlarm | DayNightRestore
  | FailToDisarm | FailToArm | FaultEvent | FaultRestoreEvent
  | LowBatteryExtended | LowBatteryRestoreExtended

definition class_order :: "event_class list" where
  "class_order =
     [SystemEvent, AlarmEvent, PerimeterAlarm, EntryExitAlarm,
      InteriorFollowerAlarm, FireAlarm, AudiblePanicAlarm, SilentPanicAlarm,
      Aux24hrAlarm, DuressAlarm, OtherAlarmRestore, RfLowBattery,
      RfLowBatteryRestore, OtherTrouble, OtherTroubleRestore, ArmDisarmEvent,
      ArmStay, Disarm, Arm, LowBattery,
      LowBatteryRestore, AcFail, AcRestore, AlarmCancel,
      OtherBypass, OtherUnbypass, DayNightAlarm, DayNightRestore,
      FailToDisarm, FailToArm, FaultEvent, FaultRestoreEvent,
      LowBatteryExtended, LowBatteryRestoreExtended]"

text \<open>The base class named in each class statement.\<close>

fun base :: "event_class \<Rightarrow> event_class option" where
  "base SystemEvent = None"
| "base AlarmEvent = Some SystemEvent"
| "base PerimeterAlarm = Some AlarmEvent"
| "base EntryExitAlarm = Some AlarmEvent"
| "base InteriorFollowerAlarm = Some AlarmEvent"
| "base FireAlarm = Some AlarmEvent"
| "base AudiblePanicAlarm = Some AlarmEvent"
| "base SilentPanicAlarm = Some AlarmEvent"
| "base Aux24hrAlarm = Some AlarmEvent"
| "base DuressAlarm = Some AlarmEvent"
| "base OtherAlarmRestore = Some SystemEvent"
| "base RfLowBattery = Some SystemEvent"
| "base RfLowBatteryRestore = Some SystemEvent"
| "base OtherTrouble = Some SystemEvent"
| "base OtherTroubleRestore = Some SystemEvent"
| "base ArmDisarmEvent = Some SystemEvent"
| "base ArmStay = Some ArmDisarmEvent"
| "base Disarm = Some ArmDisarmEvent"
| "base Arm = Some ArmDisarmEvent"
| "base LowBattery = Some SystemEvent"
| "base LowBatteryRestore = Some SystemEvent"
| "base AcFail = Some SystemEvent"
| "base AcRestore = Some SystemEvent"
| "base AlarmCancel = Some SystemEvent"
| "base OtherBypass = Some SystemEvent"
| "base OtherUnbypass = Some SystemEvent"
| "base DayNightAlarm = Some SystemEvent"
| "base DayNightRestore = Some SystemEvent"
| "base FailToDisarm = Some SystemEvent"
| "base FailToArm = Some SystemEvent"
| "base FaultEvent = Some SystemEvent"
| "base FaultRestoreEvent = Some SystemEvent"
| "base LowBatteryExtended = Some SystemEvent"
| "base LowBatteryRestoreExtended = Some SystemEvent"

text \<open>
  The class attributes as the class bodies assign them; \<open>None\<close> where a body does not
  assign the attribute, which is then looked up in the base class.
\<close>

fun NAME_body :: "event_class \<Rightarrow> string option" where
"NAME_body SystemEvent = Some ''Unknown Event''"
| "NAME_body AlarmEvent = None"
| "NAME_body PerimeterAlarm = Some ''Perimeter Alarm''"
| "NAME_body EntryExitAlarm = Some ''Entry/Exit Alarm''"
| "NAME_body InteriorFollowerAlarm = Some ''Interior Follower Alarm''"
| "NAME_body FireAlarm = Some ''Fire Alarm''"
| "NAME_body AudiblePanicAlarm = Some ''Audible Panic Alarm''"
| "NAME_body SilentPanicAlarm = Some ''Silent Panic Alarm''"
| "NAME_body Aux24hrAlarm = Some ''24-Hour Auxiliary''"
| "NAME_body DuressAlarm = Some ''Duress Alarm''"
| "NAME_body OtherAlarmRestore = Some ''Other Alarm Restore''"
| "NAME_body RfLowBattery = Some ''RF Low Battery''"
| "NAME_body RfLowBatteryRestore = Some ''RF Low Battery Restore''"
| "NAME_body OtherTrouble = Some ''Other Trouble''"
| "NAME_body OtherTroubleRestore = Some ''Other Trouble Restore''"
| "NAME_body ArmDisarmEvent = None"
| "NAME_body ArmStay = Some ''Arm Stay/Home''"
| "NAME_body Disarm = Some ''Disarm''"
| "NAME_body Arm = Some ''Arm''"
| "NAME_body LowBattery = Some ''Low Battery''"
| "NAME_body LowBatteryRestore = Some ''Low Battery Restore''"
| "NAME_body AcFail = Some ''AC Fail''"
| "NAME_body AcRestore = Some ''AC Restore''"
| "NAME_body AlarmCancel = Some ''Alarm Cancel''"
| "NAME_body OtherBypass = Some ''Other Bypass''"
| "NAME_body OtherUnbypass = Some ''Other Unbypass''"
| "NAME_body DayNightAlarm = Some ''Day/Night Alarm''"
| "NAME_body DayNightRestore = Some ''Day/Night Restore''"
| "NAME_body FailToDisarm = Some ''Fail to Disarm''"
| "NAME_body FailToArm = Some ''Fail to Arm''"
| "NAME_body FaultEvent = Some ''Fault''"
| "NAME_body FaultRestoreEvent = Some ''Fault Restore''"
| "NAME_body LowBatteryExtended = Some ''Low Battery''"
| "NAME_body LowBatteryRestoreExtended = Some ''Low Battery Restore''"

fun CODE_body :: "event_class \<Rightarrow> int option" where
"CODE_body SystemEvent = Some 0"
| "CODE_body AlarmEvent = None"
| "CODE_body PerimeterAlarm = Some 0"
| "CODE_body EntryExitAlarm = Some 1"
| "CODE_body InteriorFollowerAlarm = Some 4"
| "CODE_body FireAlarm = Some 6"
| "CODE_body AudiblePanicAlarm = Some 7"
| "CODE_body SilentPanicAlarm = Some 8"
| "CODE_body Aux24hrAlarm = Some 9"
| "CODE_body DuressAlarm = Some 0x0C"
| "CODE_body OtherAlarmRestore = Some 0x0E"
| "CODE_body RfLowBattery = Some 0x0F"
| "CODE_body RfLowBatteryRestore = Some 0x10"
| "CODE_body OtherTrouble = Some 0x11"
| "CODE_body OtherTroubleRestore = Some 0x12"
| "CODE_body ArmDisarmEvent = None"
| "CODE_body ArmStay = Some 0x15"
| "CODE_body Disarm = Some 0x16"
| "CODE_body Arm = Some 0x18"
| "CODE_body LowBattery = Some 0x1A"
| "CODE_body LowBatteryRestore = Some 0x1B"
| "CODE_body AcFail = Some 0x1C"
| "CODE_body AcRestore = Some 0x1D"
| "CODE_body AlarmCancel = Some 0x20"
| "CODE_body OtherBypass = Some 0x21"
| "CODE_body OtherUnbypass = Some 0x22"
| "CODE_body DayNightAlarm = Some 0x23"
| "CODE_body DayNightRestore = Some 0x24"
| "CODE_body FailToDisarm = Some 0x27"
| "CODE_body FailToArm = Some 0x28"
| "CODE_body FaultEvent = Some 0x2B"
| "CODE_body FaultRestoreEvent = Some 0x2C"
| "CODE_body LowBatteryExtended = Some 0x29"
| "CODE_body LowBatteryRestoreExtended = Some 0x2A"

fun IS_ZONE_body :: "event_class \<Rightarrow> bool option" where
  "IS_ZONE_body SystemEvent = Some True"
| "IS_ZONE_body ArmDisarmEvent = Some False"
| "IS_ZONE_body AlarmCancel = Some False"
| "IS_ZONE_body _ = None"

text \<open>The distance of a class from \<open>SystemEvent\<close> along \<^const>\<open>base\<close>.\<close>

definition depth :: "event_class \<Rightarrow> nat" where
  "depth c =
     (case base c of
        None \<Rightarrow> 0
      | Some b \<Rightarrow> (case base b of None \<Rightarrow> 1 | Some a \<Rightarrow> 2))"

text \<open>Attribute lookup on a class: the class's own body first, then its bases in turn.
  \<open>None\<close> would be Python's \<open>AttributeError\<close>.\<close>

function class_attr :: "(event_class \<Rightarrow> 'a option) \<Rightarrow> event_class \<Rightarrow> 'a option" where
  "class_attr body c =
     (case body c of
        Some v \<Rightarrow> Some v
      | None \<Rightarrow> (case base c of None \<Rightarrow> None | Some b \<Rightarrow> class_attr body b))"
  by pat_completeness auto
termination
  by (relation "measure (\<lambda>(body, c). depth c)") (auto simp: depth_def elim: base.elims)

declare class_attr.simps [simp del]

definition NAME :: "event_class \<Rightarrow> string" where
  "NAME c = the (class_attr NAME_body c)"

definition CODE :: "event_class \<Rightarrow> int" where
  "CODE c = the (class_attr CODE_body c)"

definition IS_ZONE :: "event_class \<Rightarrow> bool" where
  "IS_ZONE c = the (class_attr IS_ZONE_body c)"

text \<open>\<open>cls.__subclasses__()\<close>: the classes whose class statement names \<open>cls\<close> as base, in
  the order of their definition.\<close>

definition subclasses :: "event_class \<Rightarrow> event_class list" where
  "subclasses c = filter (\<lambda>k. base k = Some c) class_order"

function subclasses_recursive :: "event_class \<Rightarrow> event_class list" where
  "subclasses_recursive c =
     (let direct = subclasses c
      in direct @ concat (map subclasses_recursive direct))"
  by pat_completeness auto
termination
  by (relation "measure (\<lambda>c. 2 - depth c)")
     (auto simp: subclasses_def depth_def class_order_def split: if_splits)

declare subclasses_recursive.simps [simp del]

text \<open>
  Event objects. A \<open>SystemEvent\<close> (or subclass) instance has its class, \<open>zone_or_user\<close>
  and \<open>zone_or_user_name\<close>; an \<open>UnknownEvent\<close> instance has \<open>code\<close> and \<open>zone_or_user\<close>.
\<close>

datatype event =
    Event event_class (zone_or_user: int) "string option"
  | UnknownEvent int (zone_or_user: int)

text \<open>\<open>SystemEvent.event_for_code(event_code, zone_or_user, zones)\<close>, with
  \<open>zones.get(zone_or_user)\<close> as the lookup in the map.\<close>

definition event_for_code :: "int \<Rightarrow> int \<Rightarrow> (int \<rightharpoonup> string) \<Rightarrow> event" where
  "event_for_code event_code zone_or_user' zones =
     (case find (\<lambda>klass. CODE klass = event_code) (subclasses_recursive SystemEvent) of
        Some klass \<Rightarrow>
          if IS_ZONE klass then Event klass zone_or_user' (zones zone_or_user')
          else Event klass zone_or_user' None
      | None \<Rightarrow> UnknownEvent event_code zone_or_user')"

text \<open>
  A call of \<open>event_for_code\<close>. The parameter \<open>zones\<close> has no default value, and Python
  binds the arguments before the body runs: a call that passes no third argument
  (\<open>None\<close> here) raises \<open>TypeError\<close>.
\<close>

definition call_event_for_code :: "int \<Rightarrow> int \<Rightarrow> (int \<rightharpoonup> string) option \<Rightarrow> exc + event" where
  "call_event_for_code event_code zone_or_user' zones_arg =
     (case zones_arg of
        None \<Rightarrow> Inl (TypeError ''event_for_code() missing 1 required positional argument: zones'')
      | Some zones \<Rightarrow> Inr (event_for_code event_code zone_or_user' zones))"

text \<open>\<open>isinstance(evt, K)\<close> for a class \<open>K\<close> of \<open>events.py\<close>.\<close>

definition issubclass :: "event_class \<Rightarrow> event_class \<Rightarrow> bool" where
  "issubclass c K = (c = K \<or> c \<in> set (subclasses_recursive K))"

definition isinstance :: "event \<Rightarrow> event_class \<Rightarrow> bool" where
  "isinstance evt K = (case evt of Event c _ _ \<Rightarrow> issubclass c K | UnknownEvent _ _ \<Rightarrow> False)"

text \<open>Lower-case hexadecimal digits, and \<open>UnknownEvent.__repr__\<close>, which is also the
  \<open>NAME\<close> attribute of an \<open>UnknownEvent\<close> instance.\<close>

fun hex_lower :: "nat \<Rightarrow> string" where
  "hex_lower n =
     (if n < 16 then [''0123456789abcdef'' ! n]
      else hex_lower (n div 16) @ [''0123456789abcdef'' ! (n mod 16)])"

declare hex_lower.simps [simp del]

definition fmt_02x :: "int \<Rightarrow> string" where
  "fmt_02x n =
     (if n < 0 then ''-'' @ replicate (1 - length (hex_lower (nat (- n)))) CHR ''0'' @ hex_lower (nat (- n))
      else replicate (2 - length (hex_lower (nat n))) CHR ''0'' @ hex_lower (nat n))"

definition UnknownEvent_repr :: "int \<Rightarrow> int \<Rightarrow> string" where
  "UnknownEvent_repr code zone_or_user' =
     ''<UnknownEvent(code='' @ str_int code @ '', code_hex=0x'' @ fmt_02x code
       @ '', zone_or_user='' @ str_int zone_or_user' @ '')>''"

definition event_NAME :: "event \<Rightarrow> string" where
  "event_NAME evt =
     (case evt of Event c _ _ \<Rightarrow> NAME c | UnknownEvent code z \<Rightarrow> UnknownEvent_repr code z)"

section \<open>messages.py: the message classes\<close>

datatype PartitionState = HOME | DISARMED | AWAY

text \<open>
  The objects that \<open>MessagePacket.parse\<close> returns. Every one starts with
  \<open>raw_message\<close>, \<open>_data\<close> and \<open>from_panel\<close>; then \<open>msg_type\<close> and \<open>msg_subtype\<close>
  (\<open>UnknownMessage\<close>), \<open>user\<close> and \<open>user_code\<close> (the three arming commands),
  \<open>partition_state\<close>, \<open>zones\<close>, \<open>partitions\<close> (the reports), and \<open>_event_type\<close>,
  \<open>zone_or_user\<close>, \<open>event_type\<close>, \<open>minute\<close>, \<open>hour\<close>, \<open>day\<close>, \<open>month\<close>
  (\<open>SystemEventNotification\<close>). \<open>parse\<close> never returns an instance of the base class
  itself.
\<close>

datatype message =
    UnknownMessage string string bool char char
  | ArmAwayMessage string string bool int string
  | ArmHomeMessage string string bool int string
  | DisarmMessage string string bool int string
  | ArmingStatusRequest string string bool
  | ArmingStatusReport string string bool "int \<Rightarrow> PartitionState option"
  | ZoneStatusRequest string string bool
  | ZoneStatusReport string string bool "int \<Rightarrow> ZoneState option"
  | ZonePartitionRequest string string bool
  | ZonePartitionReport string string bool "int \<Rightarrow> int option"
  | SystemEventNotification string string bool int int event int int int int

fun from_panel :: "message \<Rightarrow> bool" where
  "from_panel (UnknownMessage r d fp t s) = fp"
| "from_panel (ArmAwayMessage r d fp u c) = fp"
| "from_panel (ArmHomeMessage r d fp u c) = fp"
| "from_panel (DisarmMessage r d fp u c) = fp"
| "from_panel (ArmingStatusRequest r d fp) = fp"
| "from_panel (ArmingStatusReport r d fp ps) = fp"
| "from_panel (ZoneStatusRequest r d fp) = fp"
| "from_panel (ZoneStatusReport r d fp zs) = fp"
| "from_panel (ZonePartitionRequest r d fp) = fp"
| "from_panel (ZonePartitionReport r d fp ps) = fp"
| "from_panel (SystemEventNotification r d fp et z ev mi h dy mo) = fp"

text \<open>The same object with \<open>raw_message\<close> and \<open>from_panel\<close> replaced: what is left of
  a message when the frame text and the direction are set aside.\<close>

fun with_frame :: "string \<Rightarrow> bool \<Rightarrow> message \<Rightarrow> message" where
  "with_frame r' fp' (UnknownMessage r d fp t s) = UnknownMessage r' d fp' t s"
| "with_frame r' fp' (ArmAwayMessage r d fp u c) = ArmAwayMessage r' d fp' u c"
| "with_frame r' fp' (ArmHomeMessage r d fp u c) = ArmHomeMessage r' d fp' u c"
| "with_frame r' fp' (DisarmMessage r d fp u c) = DisarmMessage r' d fp' u c"
| "with_frame r' fp' (ArmingStatusRequest r d fp) = ArmingStatusRequest r' d fp'"
| "with_frame r' fp' (ArmingStatusReport r d fp ps) = ArmingStatusReport r' d fp' ps"
| "with_frame r' fp' (ZoneStatusRequest r d fp) = ZoneStatusRequest r' d fp'"
| "with_frame r' fp' (ZoneStatusReport r d fp zs) = ZoneStatusReport r' d fp' zs"
| "with_frame r' fp' (ZonePartitionRequest r d fp) = ZonePartitionRequest r' d fp'"
| "with_frame r' fp' (ZonePartitionReport r d fp ps) = ZonePartitionReport r' d fp' ps"
| "with_frame r' fp' (SystemEventNotification r d fp et z ev mi h dy mo) =
     SystemEventNotification r' d fp' et z ev mi h dy mo"

text \<open>The subclasses of \<open>MessagePacket\<close> in the order of their definition, which is the
  order \<open>parse\<close> tries them in, with their \<open>MSG_TYPES\<close> and \<open>MSG_SUBTYPES\<close>
  (\<open>UnknownMessage\<close> inherits the empty lists of the base class).\<close>

datatype message_class =
    UnknownMessage_class | ArmAwayMessage_class | ArmHomeMessage_class | DisarmMessage_class
  | ArmingStatusRequest_class | ArmingStatusReport_class | ZoneStatusRequest_class
  | ZoneStatusReport_class | ZonePartitionRequest_class | ZonePartitionReport_class
  | SystemEventNotification_class

definition MessagePacket_subclasses :: "message_class list" where
  "MessagePacket_subclasses =
     [UnknownMessage_class, ArmAwayMessage_class, ArmHomeMessage_class, DisarmMessage_class,
      ArmingStatusRequest_class, ArmingStatusReport_class, ZoneStatusRequest_class,
      ZoneStatusReport_class, ZonePartitionRequest_class, ZonePartitionReport_class,
      SystemEventNotification_class]"

fun MSG_TYPES :: "message_class \<Rightarrow> char list" where
  "MSG_TYPES UnknownMessage_class = []"
| "MSG_TYPES ArmAwayMessage_class = [CHR ''A'', CHR ''a'']"
| "MSG_TYPES ArmHomeMessage_class = [CHR ''A'', CHR ''a'']"
| "MSG_TYPES DisarmMessage_class = [CHR ''A'', CHR ''a'']"
| "MSG_TYPES ArmingStatusRequest_class = [CHR ''a'']"
| "MSG_TYPES ArmingStatusReport_class = [CHR ''A'']"
| "MSG_TYPES ZoneStatusRequest_class = [CHR ''z'']"
| "MSG_TYPES ZoneStatusReport_class = [CHR ''Z'']"
| "MSG_TYPES ZonePartitionRequest_class = [CHR ''z'']"
| "MSG_TYPES ZonePartitionReport_class = [CHR ''Z'']"
| "MSG_TYPES SystemEventNotification_class = [CHR ''N'']"

fun MSG_SUBTYPES :: "message_class \<Rightarrow> char list" where
  "MSG_SUBTYPES UnknownMessage_class = []"
| "MSG_SUBTYPES ArmAwayMessage_class = [CHR ''A'', CHR ''a'']"
| "MSG_SUBTYPES ArmHomeMessage_class = [CHR ''H'', CHR ''h'']"
| "MSG_SUBTYPES DisarmMessage_class = [CHR ''D'', CHR ''d'']"
| "MSG_SUBTYPES ArmingStatusRequest_class = [CHR ''s'']"
| "MSG_SUBTYPES ArmingStatusReport_class = [CHR ''S'']"
| "MSG_SUBTYPES ZoneStatusRequest_class = [CHR ''s'']"
| "MSG_SUBTYPES ZoneStatusReport_class = [CHR ''S'']"
| "MSG_SUBTYPES ZonePartitionRequest_class = [CHR ''p'']"
| "MSG_SUBTYPES ZonePartitionReport_class = [CHR ''P'']"
| "MSG_SUBTYPES SystemEventNotification_class = [CHR ''Q'']"

text \<open>The three \<open>generate\<close> class methods that are implemented.\<close>

definition ArmingStatusRequest_generate :: string where
  "ArmingStatusRequest_generate = ''08as0064''"

definition ZoneStatusRequest_generate :: string where
  "ZoneStatusRequest_generate = ''08zs004B''"

definition ZonePartitionRequest_generate :: string where
  "ZonePartitionRequest_generate = ''08zp004E''"

subsection \<open>The constructors\<close>

definition user_message_init ::
  "(string \<Rightarrow> string \<Rightarrow> bool \<Rightarrow> int \<Rightarrow> string \<Rightarrow> message) \<Rightarrow> string \<Rightarrow> string \<Rightarrow> bool \<Rightarrow> exc + message" where
  \<comment> \<open>the body shared, word for word, by the arm-away, arm-home and disarm classes\<close>
  "user_message_init klass raw_message data fp =
     (case py_int 16 (take 2 data) of
        Inl e \<Rightarrow> Inl e
      | Inr user \<Rightarrow> Inr (klass raw_message data fp user (drop 2 data)))"

text \<open>The loops over \<open>enumerate(data)\<close>: \<open>idx\<close> counts from 0, the key is \<open>idx + 1\<close>.\<close>

fun partition_state_loop ::
  "string \<Rightarrow> nat \<Rightarrow> string \<Rightarrow> (int \<Rightarrow> PartitionState option) \<Rightarrow> exc + (int \<Rightarrow> PartitionState option)" where
  "partition_state_loop data idx [] ps = Inr ps"
| "partition_state_loop data idx (val # rest) ps =
     (if val = CHR ''H'' then partition_state_loop data (Suc idx) rest (ps(int idx + 1 \<mapsto> HOME))
      else if val = CHR ''D'' then partition_state_loop data (Suc idx) rest (ps(int idx + 1 \<mapsto> DISARMED))
      else if val = CHR ''A'' then partition_state_loop data (Suc idx) rest (ps(int idx + 1 \<mapsto> AWAY))
      else Inl (InvalidMessageException
                 (''Invalid partition state code '' @ [val]
                   @ '' in Arming Status Report message with data: '' @ data)))"

fun zones_loop :: "nat \<Rightarrow> string \<Rightarrow> (int \<Rightarrow> ZoneState option) \<Rightarrow> exc + (int \<Rightarrow> ZoneState option)" where
  "zones_loop idx [] zs = Inr zs"
| "zones_loop idx (val # rest) zs =
     (case py_int 16 [val] of
        Inl e \<Rightarrow> Inl e
      | Inr n \<Rightarrow> zones_loop (Suc idx) rest (zs(int idx + 1 \<mapsto> ZoneState_init n)))"

fun partitions_loop :: "nat \<Rightarrow> string \<Rightarrow> (int \<Rightarrow> int option) \<Rightarrow> exc + (int \<Rightarrow> int option)" where
  "partitions_loop idx [] ps = Inr ps"
| "partitions_loop idx (val # rest) ps =
     (case py_int 10 [val] of
        Inl e \<Rightarrow> Inl e
      | Inr n \<Rightarrow> partitions_loop (Suc idx) rest (ps(int idx + 1 \<mapsto> n)))"

text \<open>
  \<open>SystemEventNotification.__init__\<close>. The statements run in the order of the source:
  the two conversions, then the call \<open>SystemEvent.event_for_code(self._event_type,
  self.zone_or_user)\<close>, which passes two arguments, then the four time fields.
\<close>

definition SystemEventNotification_init :: "string \<Rightarrow> string \<Rightarrow> bool \<Rightarrow> exc + message" where
  "SystemEventNotification_init raw_message data fp =
     (case py_int 16 (take 2 data) of Inl e \<Rightarrow> Inl e | Inr event_type_num \<Rightarrow>
      case py_int 10 (take 2 (drop 2 data)) of Inl e \<Rightarrow> Inl e | Inr zone_or_user' \<Rightarrow>
      case call_event_for_code event_type_num zone_or_user' None of Inl e \<Rightarrow> Inl e | Inr event_type \<Rightarrow>
      case py_int 10 (take 2 (drop 4 data)) of Inl e \<Rightarrow> Inl e | Inr minute \<Rightarrow>
      case py_int 10 (take 2 (drop 6 data)) of Inl e \<Rightarrow> Inl e | Inr hour \<Rightarrow>
      case py_int 10 (take 2 (drop 8 data)) of Inl e \<Rightarrow> Inl e | Inr day \<Rightarrow>
      case py_int 10 (take 2 (drop 10 data)) of Inl e \<Rightarrow> Inl e | Inr month \<Rightarrow>
        Inr (SystemEventNotification raw_message data fp event_type_num zone_or_user'
               event_type minute hour day month))"

text \<open>\<open>klass(raw_message=raw_message, data=data, from_panel=from_panel)\<close>.
  (\<open>UnknownMessage\<close> needs two more arguments; \<open>parse\<close> never reaches it this way, its
  type list being empty.)\<close>

fun construct :: "message_class \<Rightarrow> string \<Rightarrow> string \<Rightarrow> bool \<Rightarrow> exc + message" where
  "construct UnknownMessage_class raw_message data fp =
     Inl (TypeError ''__init__() missing 2 required positional arguments: msg_type and msg_subtype'')"
| "construct ArmAwayMessage_class raw_message data fp = user_message_init ArmAwayMessage raw_message data fp"
| "construct ArmHomeMessage_class raw_message data fp = user_message_init ArmHomeMessage raw_message data fp"
| "construct DisarmMessage_class raw_message data fp = user_message_init DisarmMessage raw_message data fp"
| "construct ArmingStatusRequest_class raw_message data fp = Inr (ArmingStatusRequest raw_message data fp)"
| "construct ArmingStatusReport_class raw_message data fp =
     (case partition_state_loop data 0 data Map.empty of
        Inl e \<Rightarrow> Inl e
      | Inr ps \<Rightarrow> Inr (ArmingStatusReport raw_message data fp ps))"
| "construct ZoneStatusRequest_class raw_message data fp = Inr (ZoneStatusRequest raw_message data fp)"
| "construct ZoneStatusReport_class raw_message data fp =
     (case zones_loop 0 data Map.empty of
        Inl e \<Rightarrow> Inl e
      | Inr zs \<Rightarrow> Inr (ZoneStatusReport raw_message data fp zs))"
| "construct ZonePartitionRequest_class raw_message data fp = Inr (ZonePartitionRequest raw_message data fp)"
| "construct ZonePartitionReport_class raw_message data fp =
     (case partitions_loop 0 data Map.empty of
        Inl e \<Rightarrow> Inl e
      | Inr ps \<Rightarrow> Inr (ZonePartitionReport raw_message data fp ps))"
| "construct SystemEventNotification_class raw_message data fp =
     SystemEventNotification_init raw_message data fp"

subsection \<open>\<open>MessagePacket.parse\<close>\<close>

definition parse :: "string \<Rightarrow> exc + message" where
  "parse raw_message =
     (case parse_message raw_message of
        Inl e \<Rightarrow> Inl e
      | Inr (msgtype, subtype, data) \<Rightarrow>
          let fp = (msgtype \<in> set ascii_uppercase)
          in case find (\<lambda>klass. msgtype \<in> set (MSG_TYPES klass) \<and> subtype \<in> set (MSG_SUBTYPES klass))
                       MessagePacket_subclasses of
               Some klass \<Rightarrow> construct klass raw_message data fp
             | None \<Rightarrow> Inr (UnknownMessage raw_message data fp msgtype subtype))"

section \<open>state_monitor.py: \<open>StateMonitor\<close>\<close>

text \<open>
  The four dictionaries of a \<open>StateMonitor\<close>, and with them the records handed to the
  module's logger so far (\<open>logged\<close>, oldest first): the level of each call and its
  format string. The \<open>ZoneState\<close> objects in \<open>zone_status\<close> are the ones of the report
  that brought them; every report is parsed into fresh objects and no handler reads
  a report again, so they are kept by value.

  A handler returns the monitor as it is when the handler returns or raises, and the
  exception if it raised.
\<close>

datatype level = DEBUG | INFO | WARNING | ERROR

record StateMonitor =
  arming_status :: "int \<Rightarrow> PartitionState option"
  zone_status :: "int \<Rightarrow> ZoneState option"
  zone_partitions :: "int \<Rightarrow> int option"
  zone_troubles :: "int \<Rightarrow> string set option"
  logged :: "(level \<times> string) list"

definition StateMonitor_init :: StateMonitor where
  "StateMonitor_init =
     \<lparr> arming_status = Map.empty, zone_status = Map.empty, zone_partitions = Map.empty,
       zone_troubles = Map.empty, logged = [] \<rparr>"

definition log :: "level \<Rightarrow> string \<Rightarrow> StateMonitor \<Rightarrow> StateMonitor" where
  "log lvl fmt self = self\<lparr>logged := logged self @ [(lvl, fmt)]\<rparr>"

definition handle_alarm :: "event \<Rightarrow> StateMonitor \<Rightarrow> StateMonitor \<times> exc option" where
  "handle_alarm evt self0 =
     (let self = log DEBUG ''Event: %s in zone %d'' self0
      in case zone_status self (zone_or_user evt) of
           None \<Rightarrow> (self, Some (KeyError (zone_or_user evt)))
         | Some zs \<Rightarrow>
             if alarm zs
             then (log WARNING ''Got %s event for zone %d but zone is already in alarm'' self, None)
             else (let self = log INFO ''CHANGE zone %d alarm state to True'' self
                   in (self\<lparr>zone_status := (zone_status self)(zone_or_user evt \<mapsto> zs\<lparr>alarm := True\<rparr>)\<rparr>,
                       None)))"

definition handle_alarm_restore :: "event \<Rightarrow> StateMonitor \<Rightarrow> StateMonitor \<times> exc option" where
  "handle_alarm_restore evt self0 =
     (let self = log DEBUG ''Got OtherAlarmRestore event for zone %d'' self0
      in case zone_status self (zone_or_user evt) of
           None \<Rightarrow> (self, Some (KeyError (zone_or_user evt)))
         | Some zs \<Rightarrow>
             if alarm zs
             then (let self = log INFO ''CHANGE zone %d alarm state to False'' self
                   in (self\<lparr>zone_status := (zone_status self)(zone_or_user evt \<mapsto> zs\<lparr>alarm := False\<rparr>)\<rparr>,
                       None))
             else (log WARNING ''Got %s event for zone %d but zone is not in alarm'' self, None))"

definition handle_zone_trouble :: "event \<Rightarrow> StateMonitor \<Rightarrow> StateMonitor \<times> exc option" where
  "handle_zone_trouble evt self0 =
     (let self = log DEBUG ''Got %s event for zone %d'' self0
      in case zone_status self (zone_or_user evt) of
           None \<Rightarrow> (self, Some (KeyError (zone_or_user evt)))
         | Some zs \<Rightarrow>
             if trouble zs
             then (case zone_troubles self (zone_or_user evt) of
                     None \<Rightarrow> (self, Some (KeyError (zone_or_user evt)))
                   | Some causes \<Rightarrow>
                       if event_NAME evt \<in> causes
                       then (log DEBUG ''Got another %s message for zone %d'' self, None)
                       else (let self = log INFO ''ADD zone %s trouble cause: %s'' self
                             in (self\<lparr>zone_troubles :=
                                        (zone_troubles self)(zone_or_user evt \<mapsto> insert (event_NAME evt) causes)\<rparr>,
                                 None)))
             else (let self = log INFO ''CHANGE zone %d is in trouble: %s'' self
                   in case zone_troubles self (zone_or_user evt) of
                        None \<Rightarrow> (self, Some (KeyError (zone_or_user evt)))
                      | Some causes \<Rightarrow>
                          (self\<lparr>zone_troubles :=
                                   (zone_troubles self)(zone_or_user evt \<mapsto> insert (event_NAME evt) causes),
                                 zone_status := (zone_status self)(zone_or_user evt \<mapsto> zs\<lparr>trouble := True\<rparr>)\<rparr>,
                           None)))"

definition handle_zone_trouble_restore :: "event \<Rightarrow> StateMonitor \<Rightarrow> StateMonitor \<times> exc option" where
  "handle_zone_trouble_restore evt self0 =
     (let self = log DEBUG ''Got %s event for zone %d'' self0
      in case zone_status self (zone_or_user evt) of
           None \<Rightarrow> (self, Some (KeyError (zone_or_user evt)))
         | Some zs \<Rightarrow>
             if trouble zs
             then (case zone_troubles self (zone_or_user evt) of
                     None \<Rightarrow> (self, Some (KeyError (zone_or_user evt)))
                   | Some causes \<Rightarrow>
                       let (self, causes) =
                             (if event_NAME evt \<notin> causes
                              then (log WARNING ''Got %s for zone %d but zone trouble causes are: %s'' self,
                                    causes)
                              else (let self = log INFO ''REMOVE zone %s trouble cause: %s'' self
                                    in (self\<lparr>zone_troubles :=
                                               (zone_troubles self)(zone_or_user evt \<mapsto> causes - {event_NAME evt})\<rparr>,
                                        causes - {event_NAME evt})))
                       in if causes = {}
                          then (let self = log INFO ''CHANGE zone %d is no longer in trouble'' self
                                in (self\<lparr>zone_status :=
                                           (zone_status self)(zone_or_user evt \<mapsto> zs\<lparr>trouble := False\<rparr>)\<rparr>,
                                    None))
                          else (self, None))
             else (log WARNING ''Got %s for zone %d but zone is not in trouble'' self, None))"

definition handle_zone_bypass :: "event \<Rightarrow> StateMonitor \<Rightarrow> StateMonitor \<times> exc option" where
  "handle_zone_bypass evt self =
     (case zone_status self (zone_or_user evt) of
        None \<Rightarrow> (self, Some (KeyError (zone_or_user evt)))
      | Some zs \<Rightarrow>
          if bypassed zs
          then (log DEBUG ''Got another %s message for zone %d'' self, None)
          else (let self = log INFO ''CHANGE zone %d to Bypassed'' self
                in (self\<lparr>zone_status := (zone_status self)(zone_or_user evt \<mapsto> zs\<lparr>bypassed := True\<rparr>)\<rparr>,
                    None)))"

definition handle_zone_unbypass :: "event \<Rightarrow> StateMonitor \<Rightarrow> StateMonitor \<times> exc option" where
  "handle_zone_unbypass evt self =
     (case zone_status self (zone_or_user evt) of
        None \<Rightarrow> (self, Some (KeyError (zone_or_user evt)))
      | Some zs \<Rightarrow>
          if \<not> bypassed zs
          then (log DEBUG ''Got another %s message for zone %d'' self, None)
          else (let self = log INFO ''CHANGE zone %d to Unbypassed'' self
                in (self\<lparr>zone_status := (zone_status self)(zone_or_user evt \<mapsto> zs\<lparr>bypassed := False\<rparr>)\<rparr>,
                    None)))"

text \<open>Both fault handlers raise in their first statement; the statements after the
  \<open>raise\<close> never run.\<close>

definition handle_zone_fault :: "event \<Rightarrow> StateMonitor \<Rightarrow> StateMonitor \<times> exc option" where
  "handle_zone_fault evt self =
     (self, Some (NotImplementedError ''Not implemented; also how to handle NC/NO zones?''))"

definition handle_zone_fault_restore :: "event \<Rightarrow> StateMonitor \<Rightarrow> StateMonitor \<times> exc option" where
  "handle_zone_fault_restore evt self =
     (self, Some (NotImplementedError ''not implemented - also NC/NO?''))"

definition handle_event :: "event \<Rightarrow> StateMonitor \<Rightarrow> StateMonitor \<times> exc option" where
  "handle_event evt self0 =
     (let self = log DEBUG ''Got System Event Notification: %s'' self0
      in if isinstance evt AlarmEvent then handle_alarm evt self
         else if isinstance evt OtherAlarmRestore then handle_alarm_restore evt self
         else if isinstance evt RfLowBattery \<or> isinstance evt OtherTrouble \<or> isinstance evt LowBattery
           then handle_zone_trouble evt self
         else if isinstance evt RfLowBatteryRestore \<or> isinstance evt OtherTroubleRestore
                   \<or> isinstance evt LowBatteryRestore
           then handle_zone_trouble_restore evt self
         else if isinstance evt OtherBypass then handle_zone_bypass evt self
         else if isinstance evt OtherUnbypass then handle_zone_unbypass evt self
         else if isinstance evt FaultEvent then handle_zone_fault evt self
         else if isinstance evt FaultRestoreEvent then handle_zone_fault_restore evt self
         else (log WARNING ''Got un-handled System Event Notification: %s'' self, None))"

subsection \<open>\<open>StateMonitor.run\<close>\<close>

text \<open>The \<open>if\<close>/\<open>elif\<close> chain of the loop body, one equation per class of message.
  \<open>d.update(e)\<close> is \<open>d ++ e\<close>; \<open>{x: set() for x in d.keys()}\<close> has the empty set at every
  key of \<open>d\<close> and no other key.\<close>

fun dispatch_message :: "message \<Rightarrow> StateMonitor \<Rightarrow> StateMonitor \<times> exc option" where
  "dispatch_message (ArmingStatusReport r d fp partition_state) self =
     (log INFO ''Got initial partition arming status: %s''
        (self\<lparr>arming_status := arming_status self ++ partition_state\<rparr>), None)"
| "dispatch_message (ZoneStatusReport r d fp zones) self =
     (let self = self\<lparr>zone_status := zone_status self ++ zones\<rparr>;
          self = log INFO ''Got initial zone status: %s'' self
      in (self\<lparr>zone_troubles := (\<lambda>x. map_option (\<lambda>_. {}) (zone_status self x))\<rparr>, None))"
| "dispatch_message (ZonePartitionReport r d fp partitions) self =
     (log INFO ''Got zone partition state: %s''
        (self\<lparr>zone_partitions := zone_partitions self ++ partitions\<rparr>), None)"
| "dispatch_message (ArmAwayMessage r d fp user user_code) self =
     (log ERROR ''NOT IMPLEMENTED: how to handle ArmAwayMessage?''
        (log INFO ''Got Arm Away for user %s (code %s)'' self), None)"
| "dispatch_message (ArmHomeMessage r d fp user user_code) self =
     (log ERROR ''NOT IMPLEMENTED: how to handle ArmHomeMessage?''
        (log INFO ''Got Arm Home for user %s (code %s)'' self), None)"
| "dispatch_message (DisarmMessage r d fp user user_code) self =
     (log ERROR ''NOT IMPLEMENTED: how to handle DisarmMessage?''
        (log INFO ''Got Disarm for user %s (code %s)'' self), None)"
| "dispatch_message (SystemEventNotification r d fp et z event_type mi h dy mo) self =
     handle_event event_type self"
| "dispatch_message message self = (log ERROR ''Got un-handled message: %s'' self, None)"

text \<open>
  One pass through the body of the \<open>for\<close> loop, with the local \<open>is_ready\<close>. An exception
  leaves the body at once, so the readiness check is skipped.
\<close>

definition loop_body :: "message \<Rightarrow> StateMonitor \<times> bool \<Rightarrow> (StateMonitor \<times> bool) \<times> exc option" where
  "loop_body message st =
     (case dispatch_message message (fst st) of
        (self, Some e) \<Rightarrow> ((self, snd st), Some e)
      | (self, None) \<Rightarrow>
          if \<not> snd st \<and> arming_status self \<noteq> Map.empty \<and> zone_status self \<noteq> Map.empty
               \<and> zone_partitions self \<noteq> Map.empty
          then ((log INFO ''Initial state data is populated.'' self, True), None)
          else ((self, snd st), None))"

text \<open>
  The \<open>for\<close> loop over \<open>self.panel.communicate()\<close>. The generator yields
  \<open>MessagePacket.parse(line)\<close> for each line read, so every item is a message or the
  exception \<open>parse\<close> raised; nothing in \<open>run\<close> or in the generator catches an exception,
  and the first one ends the loop. The list is the part of the stream received so far.
\<close>

fun run_loop :: "(exc + message) list \<Rightarrow> StateMonitor \<times> bool \<Rightarrow> (StateMonitor \<times> bool) \<times> exc option" where
  "run_loop [] st = (st, None)"
| "run_loop (Inl e # rest) st = (st, Some e)"
| "run_loop (Inr message # rest) st =
     (case loop_body message st of
        (st', Some e) \<Rightarrow> (st', Some e)
      | (st', None) \<Rightarrow> run_loop rest st')"

text \<open>The three requests \<open>run\<close> queues before the loop, and \<open>run\<close> on the lines read
  from the panel.\<close>

definition run_requests :: "string list" where
  "run_requests =
     [ArmingStatusRequest_generate, ZoneStatusRequest_generate, ZonePartitionRequest_generate]"

definition run :: "string list \<Rightarrow> (StateMonitor \<times> bool) \<times> exc option" where
  "run lines = run_loop (map parse lines) (StateMonitor_init, False)"

text \<open>The monitor after a sequence of decoded messages, from the empty initial state.\<close>

definition after_messages :: "message list \<Rightarrow> StateMonitor" where
  "after_messages ms = fst (fst (run_loop (map Inr ms) (StateMonitor_init, False)))"

section \<open>Evaluation and helper lemmas\<close>

lemmas codec_defs = parse_def parse_message_def py_int_def strip_def is_space_def digit_value_def
  fmt_2X_def hex_upper.simps checksum_value_def digit_char_def ascii_uppercase_def
  MessagePacket_subclasses_def user_message_init_def SystemEventNotification_init_def
  call_event_for_code_def Let_def

lemmas class_defs = subclasses_recursive.simps subclasses_def class_order_def
  class_attr.simps CODE_def NAME_def IS_ZONE_def

lemma and_pow: "(and (v::int) (2 ^ n) = 2 ^ n) = bit v n"
proof
  assume "and v (2 ^ n) = 2 ^ n"
  then have "bit (and v (2 ^ n)) n" by (simp add: bit_exp_iff)
  then show "bit v n" by (simp add: bit_and_iff)
next
  assume "bit v n"
  then show "and v (2 ^ n) = 2 ^ n"
    by (intro bit_eqI) (auto simp: bit_and_iff bit_exp_iff)
qed

lemma and_masks:
  "(and (v::int) 1 = 0) = (\<not> bit v 0)" "(and v 1 = 1) = bit v 0"
  "(and v 2 = 2) = bit v 1" "(and v 4 = 4) = bit v 2" "(and v 8 = 8) = bit v 3"
  using and_pow [of v 1] and_pow [of v 2] and_pow [of v 3]
  by (auto simp: and_one_eq bit_0 mod_2_eq_odd)

section \<open>The codec\<close>

text \<open>
  C1. Claim: every frame of type \<open>N\<close>, subtype \<open>Q\<close> that passes the length and checksum
  checks and has well-formed data parses to a \<open>SystemEventNotification\<close> carrying the
  event for its code and subject and the four time fields, without an error.

  On the code this fails. The frame of the package's own test
  (\<open>test_zone_14_open\<close>) passes both checks, its data starts with the hexadecimal
  code \<open>2B\<close> and the decimal subject \<open>14\<close>, and \<open>parse\<close> raises \<open>TypeError\<close>: the
  constructor calls \<open>event_for_code\<close> without the required \<open>zones\<close> argument. With an
  empty zone table the call would have given the \<open>FaultEvent\<close> the test expects.
\<close>

theorem C1_event_frame_raises:
  "parse_message ''14NQ2B14231021020038'' = Inr (CHR ''N'', CHR ''Q'', ''2B1423102102'')
   \<and> py_int 16 ''2B'' = Inr 43 \<and> py_int 10 ''14'' = Inr 14
   \<and> parse ''14NQ2B14231021020038''
       = Inl (TypeError ''event_for_code() missing 1 required positional argument: zones'')
   \<and> event_for_code 43 14 Map.empty = Event FaultEvent 14 None"
  by (simp add: codec_defs event_for_code_def class_defs)

text \<open>
  C2. Claim: a frame of the declared length is rejected with a checksum error exactly
  when its last two characters differ from the checksum rendered as two upper-case
  hexadecimal digits.

  On the code this fails for every checksum below 16. The arming status report
  \<open>0AASHH000B\<close> has the declared length 10, its checksum is 11 and its trailer is the
  two-digit rendering \<open>0B\<close>; \<open>%2X\<close> renders 11 as a space and \<open>B\<close>, and the frame is
  rejected.
\<close>

theorem C2_small_checksum_rejected:
  "py_int 16 (take 2 ''0AASHH000B'') = Inr (int (length ''0AASHH000B''))
   \<and> checksum_value ''0AASHH000B'' = 11
   \<and> two_hex_digits (checksum_value ''0AASHH000B'') = drop 8 ''0AASHH000B''
   \<and> parse ''0AASHH000B'' = Inl (MessageChecksumException ''0AASHH000B'' ''0B'' '' B'')"
  by (simp add: codec_defs two_hex_digits_def)

text \<open>
  C8. For every value from 0 to 15, \<open>ZoneState(value)\<close> has \<open>closed\<close> iff bit 0 is
  clear, \<open>open\<close> iff bit 0 is set, \<open>trouble\<close> iff bit 1, \<open>alarm\<close> iff bit 2 and
  \<open>bypassed\<close> iff bit 3 is set, and its string form is the names of the set flags, in
  the order closed/open, trouble, alarm, bypassed, joined by \<open>|\<close>.
\<close>

theorem C8_zone_state_bits:
  assumes "0 \<le> v" and "v \<le> 15"
  shows "closed (ZoneState_init v) = (\<not> bit v 0)
       \<and> opened (ZoneState_init v) = bit v 0
       \<and> trouble (ZoneState_init v) = bit v 1
       \<and> alarm (ZoneState_init v) = bit v 2
       \<and> bypassed (ZoneState_init v) = bit v 3
       \<and> ZoneState_str (ZoneState_init v) = join ''|'' (flag_names v)"
  by (simp add: ZoneState_init_def ZoneState_str_def flag_names_def and_masks)

text \<open>The four examples of the claim, each an instance of the theorem.\<close>

theorem C8_zone_state_bits_witness:
  "ZoneState_str (ZoneState_init 0) = ''CLOSED''
   \<and> ZoneState_str (ZoneState_init 1) = ''OPEN''
   \<and> ZoneState_str (ZoneState_init 7) = ''OPEN|TROUBLE|ALARM''
   \<and> ZoneState_str (ZoneState_init 11) = ''OPEN|TROUBLE|BYPASSED''
   \<and> alarm (ZoneState_init 7) \<and> \<not> alarm (ZoneState_init 11)"
  using C8_zone_state_bits [of 0] C8_zone_state_bits [of 1] C8_zone_state_bits [of 7]
    C8_zone_state_bits [of 11]
  by (simp add: flag_names_def)

section \<open>The event classes\<close>

text \<open>
  C3. Claim: no two classes that take part in the dispatch of \<open>event_for_code\<close> have
  the same \<open>CODE\<close>.

  On the code this fails. The dispatch runs over every subclass of \<open>SystemEvent\<close>,
  the two grouping classes \<open>AlarmEvent\<close> and \<open>ArmDisarmEvent\<close> included; neither
  assigns \<open>CODE\<close>, so both have the inherited 0, the code of \<open>PerimeterAlarm\<close>. They
  come first in the list, and code 0 yields a bare \<open>AlarmEvent\<close> named
  \<open>Unknown Event\<close>, never a \<open>PerimeterAlarm\<close>.
\<close>

theorem C3_codes_shared:
  "subclasses_recursive SystemEvent ! 0 = AlarmEvent
   \<and> subclasses_recursive SystemEvent ! 6 = ArmDisarmEvent
   \<and> subclasses_recursive SystemEvent ! 22 = PerimeterAlarm
   \<and> CODE AlarmEvent = 0 \<and> CODE ArmDisarmEvent = 0 \<and> CODE PerimeterAlarm = 0
   \<and> event_for_code 0 5 Map.empty = Event AlarmEvent 5 None
   \<and> NAME AlarmEvent = ''Unknown Event''"
  by (simp add: event_for_code_def class_defs)

end
